theory Spec2Isabelle
  imports Complex_Main "HOL-Library.Char_ord" "HOL-Library.List_Lexorder"
begin

section \<open>Data model\<close>

text \<open>
  The API keeps users, titles, reviews and comments in relational tables and sends mail.
  A table is the list of its rows; a row is a record with its primary key. The
  exceptions that the views and serializers raise are values of \<open>error\<close>; the
  framework's exception handler turns each into a response of the status
  \<open>status_of_error\<close>.
\<close>

datatype error = ValidationError | Http404 | MultipleObjectsReturned | KeyError

definition status_of_error :: "error \<Rightarrow> nat" where
  "status_of_error e =
     (case e of
        ValidationError \<Rightarrow> 400
      | Http404 \<Rightarrow> 404
      | MultipleObjectsReturned \<Rightarrow> 500
      | KeyError \<Rightarrow> 500)"

type_synonym dict = "(string \<times> string) list"

record user =
  pk :: nat
  username :: string
  email :: string
  first_name :: string
  last_name :: string
  bio :: string
  role :: string

text \<open>
  Modelled from the spec: the category, genre and title models of
  \<open>reviews/models.py\<close>, which is not among the source files. The specification gives
  a category and a genre a name and a slug, and a title a name, a year, a description, a
  reference to a category and references to genres.
\<close>

record category =
  category_pk :: nat
  category_name :: string
  category_slug :: string

record genre =
  genre_pk :: nat
  genre_name :: string
  genre_slug :: string

record title =
  title_pk :: nat
  name :: string
  year :: int
  description :: string
  title_category :: "nat option"
  title_genre :: "nat list"

record review =
  review_pk :: nat
  review_title :: nat
  review_author :: nat
  review_text :: string
  score :: int

record comment =
  comment_pk :: nat
  comment_review :: nat
  comment_author :: nat
  comment_text :: string

text \<open>
  The confirmation mail. Its body is the f-string of \<open>SignupView.post\<close>, a fixed
  greeting around the user's name and the confirmation code; it is kept by these two
  interpolated values.
\<close>

datatype email_message = Confirmation string string

record mail =
  subject :: string
  message :: email_message
  recipient_list :: "string list"

record state =
  users :: "user list"
  categories :: "category list"
  genres :: "genre list"
  titles :: "title list"
  reviews :: "review list"
  comments :: "comment list"
  outbox :: "mail list"

subsection \<open>Queries\<close>

text \<open>
  \<open>QuerySet.filter(...).exists()\<close> and \<open>get_object_or_404\<close>. The latter is
  \<open>QuerySet.get\<close> with \<open>DoesNotExist\<close> turned into \<open>Http404\<close>; more than
  one matching row raises \<open>MultipleObjectsReturned\<close>.
\<close>

definition exists :: "'a list \<Rightarrow> ('a \<Rightarrow> bool) \<Rightarrow> bool" where
  "exists rows p = (filter p rows \<noteq> [])"

definition get_object_or_404 :: "'a list \<Rightarrow> ('a \<Rightarrow> bool) \<Rightarrow> error + 'a" where
  "get_object_or_404 rows p =
     (case filter p rows of
        [] \<Rightarrow> Inl Http404
      | [x] \<Rightarrow> Inr x
      | _ \<Rightarrow> Inl MultipleObjectsReturned)"

section \<open>Review serializer\<close>

text \<open>
  \<open>ReviewSerializer.validate_score\<close>: the score is returned when it lies between 1
  and 10 and \<open>ValidationError\<close> is raised otherwise.
\<close>

definition validate_score :: "int \<Rightarrow> error + int" where
  "validate_score val = (if \<not> (1 \<le> val \<and> val \<le> 10) then Inl ValidationError else Inr val)"

text \<open>
  \<open>ReviewSerializer.validate\<close>. The serializer context gives the request's method
  and user and the \<open>title_id\<close> of the path; the query runs on the review table.
\<close>

definition validate ::
  "review list \<Rightarrow> string \<Rightarrow> user \<Rightarrow> nat \<Rightarrow> 'a \<Rightarrow> error + 'a" where
  "validate rows request_method author title_id data =
     (if \<not> request_method = ''POST'' then Inr data
      else if exists rows (\<lambda>r. review_author r = pk author \<and> review_title r = title_id)
        then Inl ValidationError
      else Inr data)"

subsection \<open>Fields of a serializer\<close>


record title_validated =
  tv_name :: "string option"
  tv_year :: "int option"
  tv_description :: "string option"
  tv_category :: "category option"
  tv_genre :: "genre list option"

record review_data =
  rd_text :: "string option"
  rd_score :: "int option"

record env =
  strip :: "string \<Rightarrow> string"
  username_validation :: "string \<Rightarrow> bool"
  user_model_field :: "string \<Rightarrow> user list \<Rightarrow> user option \<Rightarrow> string \<Rightarrow> string option"
  required :: "string \<Rightarrow> string \<Rightarrow> bool"
  is_admin :: "user \<Rightarrow> bool"
  create_user :: "user list \<Rightarrow> string option \<Rightarrow> string option \<Rightarrow> user"
  make_token :: "user \<Rightarrow> string"
  check_token :: "nat \<Rightarrow> user \<Rightarrow> string \<Rightarrow> bool"
  for_user :: "nat \<Rightarrow> user \<Rightarrow> string"
  text_field :: "string \<Rightarrow> string \<Rightarrow> string option"
  score_validators :: "int \<Rightarrow> bool"
  new_review :: "state \<Rightarrow> user \<Rightarrow> title \<Rightarrow> review_data \<Rightarrow> review"
  new_comment :: "state \<Rightarrow> user \<Rightarrow> review \<Rightarrow> string option \<Rightarrow> comment"
  title_text_field :: "string \<Rightarrow> string \<Rightarrow> string option"
  year_validators :: "int \<Rightarrow> bool"
  new_title :: "state \<Rightarrow> title_validated \<Rightarrow> title"

text \<open>
  A field's \<open>run_validation\<close> on the value found for it in the payload. An absent
  value is skipped in a partial update and where the field is not required, and is an
  error otherwise; a present value is validated.
\<close>

datatype 'a field_result = Skip | Value 'a | Error

definition run_validation ::
  "bool \<Rightarrow> bool \<Rightarrow> ('a \<Rightarrow> 'b option) \<Rightarrow> 'a option \<Rightarrow> 'b field_result" where
  "run_validation partial req validate_value d =
     (case d of
        None \<Rightarrow> (if partial \<or> \<not> req then Skip else Error)
      | Some v \<Rightarrow> (case validate_value v of None \<Rightarrow> Error | Some v' \<Rightarrow> Value v'))"

text \<open>
  \<open>Serializer.to_internal_value\<close>: the validated values of the fields that were not
  skipped, or \<open>ValidationError\<close> when a field failed.
\<close>

fun to_internal_value :: "(string \<times> string field_result) list \<Rightarrow> error + dict" where
  "to_internal_value [] = Inr []"
| "to_internal_value ((f, r) # rs) =
     (case r of
        Error \<Rightarrow> Inl ValidationError
      | Skip \<Rightarrow> to_internal_value rs
      | Value v \<Rightarrow>
          (case to_internal_value rs of Inl e \<Rightarrow> Inl e | Inr d \<Rightarrow> Inr ((f, v) # d)))"

text \<open>
  A \<open>CharField\<close> that does not allow a blank value: the input is stripped, the empty
  text is refused, and so is a text with a null character, by the validator that every
  character field has. (The other validator that every character field has refuses
  surrogate code points, which the characters of a HOL string do not include.)
\<close>

definition char_field :: "env \<Rightarrow> string \<Rightarrow> string option" where
  "char_field env v =
     (let v' = strip env v in
      if v' = [] then None
      else if CHR 0x00 \<in> set v' then None
      else Some v')"

text \<open>
  The username field of the user model, as migration 0002 declares it: a character
  field of at most 150 characters, validated by \<open>username_validation\<close>, unique. The
  uniqueness validator leaves the instance being updated out of its query.
\<close>

definition username_field :: "env \<Rightarrow> user list \<Rightarrow> user option \<Rightarrow> string \<Rightarrow> string option" where
  "username_field env rows instance v =
     (let v' = strip env v in
      if v' = [] then None
      else if 150 < length v' then None
      else if CHR 0x00 \<in> set v' then None
      else if \<not> username_validation env v' then None
      else if exists rows (\<lambda>u. username u = v' \<and> Some (pk u) \<noteq> map_option pk instance) then None
      else Some v')"

text \<open>
  The role field of the user model, as migration 0002 declares it: a choice among three
  roles, blank allowed, with a default (so never required).
\<close>

definition role_choices :: "string list" where
  "role_choices = [''user'', ''moderator'', ''admin'']"

definition role_field :: "string \<Rightarrow> string option" where
  "role_field v = (if v = [] then Some [] else if v \<in> set role_choices then Some v else None)"

definition user_field :: "env \<Rightarrow> user list \<Rightarrow> user option \<Rightarrow> string \<Rightarrow> string \<Rightarrow> string option" where
  "user_field env rows instance f v =
     (if f = ''username'' then username_field env rows instance v
      else if f = ''role'' then role_field v
      else user_model_field env f rows instance v)"

definition user_field_required :: "env \<Rightarrow> string \<Rightarrow> bool" where
  "user_field_required env f =
     (if f = ''username'' then True
      else if f = ''role'' then False
      else required env ''user'' f)"

section \<open>User serializers\<close>

text \<open>
  The \<open>Meta\<close> of a model serializer on the user model: its fields and those among
  them that are read-only. \<open>ReadOnlyRole\<close> inherits the \<open>Meta\<close> of
  \<open>UserSerializer\<close> and makes the role read-only.
\<close>

record meta =
  meta_fields :: "string list"
  read_only_fields :: "string list"

definition UserSerializer :: meta where
  "UserSerializer =
     \<lparr>meta_fields = [''username'', ''email'', ''first_name'', ''last_name'', ''bio'', ''role''],
      read_only_fields = []\<rparr>"

definition ReadOnlyRole :: meta where
  "ReadOnlyRole = UserSerializer\<lparr>read_only_fields := [''role'']\<rparr>"

definition SignupSerializer :: meta where
  "SignupSerializer = \<lparr>meta_fields = [''username'', ''email''], read_only_fields = []\<rparr>"

text \<open>
  \<open>is_valid\<close> of a user serializer: each field that is not read-only is run on its
  value in the payload; a read-only field is never read from the payload.
\<close>

definition is_valid ::
  "env \<Rightarrow> meta \<Rightarrow> user list \<Rightarrow> user option \<Rightarrow> bool \<Rightarrow> dict \<Rightarrow> error + dict" where
  "is_valid env m rows instance partial initial_data =
     to_internal_value
       (map (\<lambda>f. (f, run_validation partial (user_field_required env f)
                       (user_field env rows instance f) (map_of initial_data f)))
            (filter (\<lambda>f. f \<notin> set (read_only_fields m)) (meta_fields m)))"

text \<open>
  \<open>ModelSerializer.update\<close> sets each validated value on the instance and saves it;
  saving rewrites the row of the instance's primary key.
\<close>

fun setattr :: "user \<Rightarrow> string \<times> string \<Rightarrow> user" where
  "setattr u (f, v) =
     (if f = ''username'' then u\<lparr>username := v\<rparr>
      else if f = ''email'' then u\<lparr>email := v\<rparr>
      else if f = ''first_name'' then u\<lparr>first_name := v\<rparr>
      else if f = ''last_name'' then u\<lparr>last_name := v\<rparr>
      else if f = ''bio'' then u\<lparr>bio := v\<rparr>
      else if f = ''role'' then u\<lparr>role := v\<rparr>
      else u)"

definition update :: "user \<Rightarrow> dict \<Rightarrow> user" where
  "update instance validated_data = foldl setattr instance validated_data"

definition save :: "user list \<Rightarrow> user \<Rightarrow> user list" where
  "save rows instance = map (\<lambda>u. if pk u = pk instance then instance else u) rows"

definition to_representation :: "user \<Rightarrow> dict" where
  "to_representation u =
     [(''username'', username u), (''email'', email u), (''first_name'', first_name u),
      (''last_name'', last_name u), (''bio'', bio u), (''role'', role u)]"

section \<open>Views on users\<close>

datatype response = Response dict nat | HttpResponseBadRequest

definition status_code :: "response \<Rightarrow> nat" where
  "status_code r = (case r of Response d s \<Rightarrow> s | HttpResponseBadRequest \<Rightarrow> 400)"

record request =
  http_method :: string
  user :: user
  data :: dict

text \<open>
  \<open>UserViewSet.get_user_info\<close>, the action behind \<open>/me\<close>. The request is an
  authenticated one (the action's permission class), so it carries its user. A raised
  exception leaves the state as it was.
\<close>

definition get_user_info :: "env \<Rightarrow> state \<Rightarrow> request \<Rightarrow> error + state \<times> response" where
  "get_user_info env st request =
     (if http_method request = ''PATCH'' then
        (let serializer = (if is_admin env (user request) then UserSerializer else ReadOnlyRole)
         in case is_valid env serializer (users st) (Some (user request)) True (data request) of
              Inl e \<Rightarrow> Inl e
            | Inr validated_data \<Rightarrow>
                (let instance = update (user request) validated_data
                 in Inr (st\<lparr>users := save (users st) instance\<rparr>,
                         Response (to_representation instance) 200)))
      else Inr (st, Response (to_representation (user request)) 200))"

text \<open>
  \<open>SignupView.post\<close>. \<open>request.data.get\<close> gives \<open>None\<close> for an absent key, which
  no stored name or address equals. The data of a serializer built from a payload alone
  is its validated data. The mail backend takes every message: sending adds it to the
  outbox.
\<close>

definition SignupView_post :: "env \<Rightarrow> state \<Rightarrow> dict \<Rightarrow> error + state \<times> response" where
  "SignupView_post env st request_data =
     (let username_and_email_exists =
            exists (users st)
              (\<lambda>u. Some (username u) = map_of request_data ''username'' \<and>
                    Some (email u) = map_of request_data ''email'')
      in if username_and_email_exists then Inr (st, Response request_data 200)
         else
           (case is_valid env SignupSerializer (users st) None False request_data of
              Inl e \<Rightarrow> Inl e
            | Inr serializer_data \<Rightarrow>
                (let new_user = create_user env (users st)
                                  (map_of serializer_data ''username'')
                                  (map_of serializer_data ''email'');
                     confirmation_code = make_token env new_user;
                     email_message = Confirmation (username new_user) confirmation_code
                 in Inr (st\<lparr>users := users st @ [new_user],
                            outbox := outbox st @
                              [\<lparr>subject = ''Confirmation code for YaMDb'',
                                message = email_message,
                                recipient_list = [email new_user]\<rparr>]\<rparr>,
                         Response serializer_data 200))))"

text \<open>
  \<open>TokenSerializer\<close> declares both of its fields itself, as required character
  fields, so no validator of the model applies to them.
\<close>

definition TokenSerializer_is_valid :: "env \<Rightarrow> dict \<Rightarrow> error + dict" where
  "TokenSerializer_is_valid env initial_data =
     to_internal_value
       [(''username'', run_validation False True (char_field env) (map_of initial_data ''username'')),
        (''confirmation_code'',
           run_validation False True (char_field env)
             (map_of initial_data ''confirmation_code''))]"

text \<open>
  \<open>GetTokenView.post\<close>, for a request made at the time \<open>now\<close>. It reads the
  user table and writes nothing; the state is returned so that requests can be run one
  after the other.
\<close>

definition GetTokenView_post ::
  "env \<Rightarrow> nat \<Rightarrow> state \<Rightarrow> dict \<Rightarrow> error + state \<times> response" where
  "GetTokenView_post env now st request_data =
     (case TokenSerializer_is_valid env request_data of
        Inl e \<Rightarrow> Inl e
      | Inr validated_data \<Rightarrow>
          (case map_of validated_data ''username'' of
             None \<Rightarrow> Inl KeyError
           | Some n \<Rightarrow>
               (case get_object_or_404 (users st) (\<lambda>u. username u = n) of
                  Inl e \<Rightarrow> Inl e
                | Inr u \<Rightarrow>
                    (case map_of validated_data ''confirmation_code'' of
                       None \<Rightarrow> Inl KeyError
                     | Some confirmation_code \<Rightarrow>
                         if \<not> check_token env now u confirmation_code
                         then Inr (st, HttpResponseBadRequest)
                         else Inr (st, Response [(''token'', for_user env now u)] 200)))))"

section \<open>Reviews and comments\<close>

text \<open>
  \<open>is_valid\<close> of \<open>ReviewSerializer\<close>: the text and the score are its two fields
  that are not read-only. The score goes through the validators of the model field and
  then through \<open>validate_score\<close>; when no field failed, \<open>validate\<close> runs on the
  validated data.
\<close>

definition field_value :: "'a field_result \<Rightarrow> 'a option" where
  "field_value r = (case r of Value v \<Rightarrow> Some v | _ \<Rightarrow> None)"

definition score_field :: "env \<Rightarrow> int \<Rightarrow> int option" where
  "score_field env v =
     (if score_validators env v
      then (case validate_score v of Inl e \<Rightarrow> None | Inr v' \<Rightarrow> Some v')
      else None)"

definition ReviewSerializer_is_valid ::
  "env \<Rightarrow> state \<Rightarrow> string \<Rightarrow> user \<Rightarrow> nat \<Rightarrow> bool \<Rightarrow> review_data \<Rightarrow> error + review_data" where
  "ReviewSerializer_is_valid env st request_method request_user title_id partial initial_data =
     (let t = run_validation partial (required env ''review'' ''text'')
                (text_field env ''review'') (rd_text initial_data);
          s = run_validation partial (required env ''review'' ''score'')
                (score_field env) (rd_score initial_data)
      in if t = Error \<or> s = Error then Inl ValidationError
         else validate (reviews st) request_method request_user title_id
                \<lparr>rd_text = field_value t, rd_score = field_value s\<rparr>)"

definition CommentSerializer_is_valid :: "env \<Rightarrow> bool \<Rightarrow> string option \<Rightarrow> error + string option" where
  "CommentSerializer_is_valid env partial initial_text =
     (let t = run_validation partial (required env ''comment'' ''text'')
                (text_field env ''comment'') initial_text
      in if t = Error then Inl ValidationError else Inr (field_value t))"

text \<open>
  \<open>ReviewViewSet\<close>. The ids of the path are numbers. \<open>title.reviews\<close> are the
  reviews whose title is that title.
\<close>

definition ReviewViewSet_perform_create ::
  "env \<Rightarrow> state \<Rightarrow> user \<Rightarrow> nat \<Rightarrow> review_data \<Rightarrow> error + state" where
  "ReviewViewSet_perform_create env st request_user title_id validated_data =
     (case get_object_or_404 (titles st) (\<lambda>t. title_pk t = title_id) of
        Inl e \<Rightarrow> Inl e
      | Inr t \<Rightarrow>
          Inr (st\<lparr>reviews := reviews st @ [new_review env st request_user t validated_data]\<rparr>))"

definition ReviewViewSet_get_queryset :: "state \<Rightarrow> nat \<Rightarrow> error + review list" where
  "ReviewViewSet_get_queryset st title_id =
     (case get_object_or_404 (titles st) (\<lambda>t. title_pk t = title_id) of
        Inl e \<Rightarrow> Inl e
      | Inr t \<Rightarrow> Inr (filter (\<lambda>r. review_title r = title_pk t) (reviews st)))"

text \<open>\<open>CommentViewSet\<close>.\<close>

definition CommentViewSet_perform_create ::
  "env \<Rightarrow> state \<Rightarrow> user \<Rightarrow> nat \<Rightarrow> nat \<Rightarrow> string option \<Rightarrow> error + state" where
  "CommentViewSet_perform_create env st request_user title_id review_id validated_text =
     (case get_object_or_404 (titles st) (\<lambda>t. title_pk t = title_id) of
        Inl e \<Rightarrow> Inl e
      | Inr t \<Rightarrow>
          (case get_object_or_404 (reviews st)
                  (\<lambda>r. review_pk r = review_id \<and> review_title r = title_pk t) of
             Inl e \<Rightarrow> Inl e
           | Inr r \<Rightarrow>
               Inr (st\<lparr>comments := comments st @
                      [new_comment env st request_user r validated_text]\<rparr>)))"

definition CommentViewSet_get_queryset :: "state \<Rightarrow> nat \<Rightarrow> nat \<Rightarrow> error + comment list" where
  "CommentViewSet_get_queryset st title_id review_id =
     (case get_object_or_404 (titles st) (\<lambda>t. title_pk t = title_id) of
        Inl e \<Rightarrow> Inl e
      | Inr t \<Rightarrow>
          (case get_object_or_404 (reviews st)
                  (\<lambda>r. review_pk r = review_id \<and> review_title r = title_pk t) of
             Inl e \<Rightarrow> Inl e
           | Inr r \<Rightarrow> Inr (filter (\<lambda>c. comment_review c = review_pk r) (comments st))))"

text \<open>
  The actions that the framework's model view set builds on these two methods, once the
  permission classes have let the request through. Listing evaluates the query set.
  Creating validates the payload and then calls \<open>perform_create\<close>. Retrieving,
  updating and deleting start with \<open>get_object\<close>, which looks the primary key of the
  path up in the query set; what they do with the object found is not modelled.
\<close>

definition ReviewViewSet_list :: "state \<Rightarrow> nat \<Rightarrow> error + review list" where
  "ReviewViewSet_list st title_id = ReviewViewSet_get_queryset st title_id"

definition ReviewViewSet_create ::
  "env \<Rightarrow> state \<Rightarrow> user \<Rightarrow> nat \<Rightarrow> review_data \<Rightarrow> error + state" where
  "ReviewViewSet_create env st request_user title_id initial_data =
     (case ReviewSerializer_is_valid env st ''POST'' request_user title_id False initial_data of
        Inl e \<Rightarrow> Inl e
      | Inr validated_data \<Rightarrow>
          ReviewViewSet_perform_create env st request_user title_id validated_data)"

definition ReviewViewSet_get_object :: "state \<Rightarrow> nat \<Rightarrow> nat \<Rightarrow> error + review" where
  "ReviewViewSet_get_object st title_id review_id =
     (case ReviewViewSet_get_queryset st title_id of
        Inl e \<Rightarrow> Inl e
      | Inr queryset \<Rightarrow> get_object_or_404 queryset (\<lambda>r. review_pk r = review_id))"

definition CommentViewSet_list :: "state \<Rightarrow> nat \<Rightarrow> nat \<Rightarrow> error + comment list" where
  "CommentViewSet_list st title_id review_id = CommentViewSet_get_queryset st title_id review_id"

definition CommentViewSet_create ::
  "env \<Rightarrow> state \<Rightarrow> user \<Rightarrow> nat \<Rightarrow> nat \<Rightarrow> string option \<Rightarrow> error + state" where
  "CommentViewSet_create env st request_user title_id review_id initial_text =
     (case CommentSerializer_is_valid env False initial_text of
        Inl e \<Rightarrow> Inl e
      | Inr validated_text \<Rightarrow>
          CommentViewSet_perform_create env st request_user title_id review_id validated_text)"

definition CommentViewSet_get_object :: "state \<Rightarrow> nat \<Rightarrow> nat \<Rightarrow> nat \<Rightarrow> error + comment" where
  "CommentViewSet_get_object st title_id review_id comment_id =
     (case CommentViewSet_get_queryset st title_id review_id of
        Inl e \<Rightarrow> Inl e
      | Inr queryset \<Rightarrow> get_object_or_404 queryset (\<lambda>c. comment_pk c = comment_id))"

section \<open>Titles\<close>




















section \<open>An environment to run the model in\<close>

text \<open>
  One choice for each parameter, on which the views can be evaluated at concrete
  requests: white space is the ASCII one, a new row takes the next free primary key, the
  confirmation code of a user is derived from the user's name and address and is
  accepted up to the time 30.
\<close>

definition isspace :: "char \<Rightarrow> bool" where
  "isspace c = (c \<in> set [CHR '' '', CHR 0x09, CHR 0x0A, CHR 0x0B, CHR 0x0C, CHR 0x0D])"

definition next_pk :: "nat list \<Rightarrow> nat" where
  "next_pk pks = Suc (foldr max pks 0)"

definition or_empty :: "string option \<Rightarrow> string" where
  "or_empty v = (case v of None \<Rightarrow> [] | Some s \<Rightarrow> s)"

definition sample_env :: env where
  "sample_env =
     \<lparr>strip = (\<lambda>s. dropWhile isspace (rev (dropWhile isspace (rev s)))),
      username_validation = (\<lambda>s. s \<noteq> ''me''),
      user_model_field = (\<lambda>f rows instance v. Some v),
      required = (\<lambda>m f. True),
      is_admin = (\<lambda>u. role u = ''admin''),
      create_user = (\<lambda>rows n e.
         \<lparr>pk = next_pk (map pk rows), username = or_empty n, email = or_empty e,
          first_name = [], last_name = [], bio = [], role = ''user''\<rparr>),
      make_token = (\<lambda>u. ''code-'' @ username u @ ''-'' @ email u),
      check_token = (\<lambda>now u c. now \<le> 30 \<and> c = ''code-'' @ username u @ ''-'' @ email u),
      for_user = (\<lambda>now u. ''jwt-'' @ username u),
      text_field = (\<lambda>m v. if v = [] then None else Some v),
      score_validators = (\<lambda>v. True),
      new_review = (\<lambda>st u t d.
         \<lparr>review_pk = next_pk (map review_pk (reviews st)), review_title = title_pk t,
          review_author = pk u, review_text = or_empty (rd_text d),
          score = (case rd_score d of None \<Rightarrow> 0 | Some v \<Rightarrow> v)\<rparr>),
      new_comment = (\<lambda>st u r d.
         \<lparr>comment_pk = next_pk (map comment_pk (comments st)), comment_review = review_pk r,
          comment_author = pk u, comment_text = or_empty d\<rparr>),
      title_text_field = (\<lambda>f v. if v = [] then None else Some v),
      year_validators = (\<lambda>v. v \<le> 2023),
      new_title = (\<lambda>st v.
         \<lparr>title_pk = next_pk (map title_pk (titles st)), name = or_empty (tv_name v),
          year = (case tv_year v of None \<Rightarrow> 0 | Some y \<Rightarrow> y),
          description = or_empty (tv_description v),
          title_category = map_option category_pk (tv_category v),
          title_genre = (case tv_genre v of None \<Rightarrow> [] | Some gs \<Rightarrow> map genre_pk gs)\<rparr>)\<rparr>"

subsection \<open>Sample rows and states\<close>

definition alice :: user where
  "alice = \<lparr>pk = 1, username = ''alice'', email = ''alice@example.org'', first_name = [],
            last_name = [], bio = [], role = ''user''\<rparr>"

definition bob :: user where
  "bob = \<lparr>pk = 2, username = ''bob'', email = ''bob@example.org'', first_name = [],
          last_name = [], bio = [], role = ''user''\<rparr>"

definition solaris :: title where
  "solaris = \<lparr>title_pk = 1, name = ''Solaris'', year = 1972, description = [],
              title_category = None, title_genre = []\<rparr>"

definition alice_review :: review where
  "alice_review = \<lparr>review_pk = 1, review_title = 1, review_author = 1,
                   review_text = ''good'', score = 7\<rparr>"

definition alice_state :: state where
  "alice_state = \<lparr>users = [alice], categories = [], genres = [], titles = [solaris],
                  reviews = [alice_review], comments = [], outbox = []\<rparr>"

definition alice_token_request :: dict where
  "alice_token_request =
     [(''username'', ''alice''), (''confirmation_code'', ''code-alice-alice@example.org'')]"

definition carol :: user where
  "carol = \<lparr>pk = 3, username = ''carol'', email = ''carol@example.org'', first_name = [],
           last_name = [], bio = [], role = ''admin''\<rparr>"

definition alice_patch :: request where
  "alice_patch = \<lparr>http_method = ''PATCH'', user = alice,
                  data = [(''role'', ''admin''), (''bio'', ''hi'')]\<rparr>"

definition carol_patch :: request where
  "carol_patch = \<lparr>http_method = ''PATCH'', user = carol,
                 data = [(''role'', ''moderator''), (''bio'', ''hi'')]\<rparr>"

definition carol_state :: state where
  "carol_state = \<lparr>users = [alice, carol], categories = [], genres = [], titles = [],
                  reviews = [], comments = [], outbox = []\<rparr>"



definition stalker :: title where
  "stalker = \<lparr>title_pk = 2, name = ''Stalker'', year = 1979, description = [],
              title_category = None, title_genre = []\<rparr>"

definition two_titles_state :: state where
  "two_titles_state = \<lparr>users = [alice, bob], categories = [], genres = [],
                       titles = [solaris, stalker], reviews = [alice_review],
                       comments = [], outbox = []\<rparr>"






section \<open>Properties\<close>

subsection \<open>Facts about queries and serializers\<close>

lemma exists_iff: "exists rows p \<longleftrightarrow> (\<exists>x\<in>set rows. p x)"
  by (auto simp: exists_def filter_empty_conv)

lemma to_internal_value_cases:
  "to_internal_value rs = Inl ValidationError \<or> (\<exists>d. to_internal_value rs = Inr d)"
  by (induction rs rule: to_internal_value.induct) (auto split: field_result.splits sum.splits)

lemma is_valid_error: "is_valid env m rows i p d = Inl e \<Longrightarrow> e = ValidationError"
  using to_internal_value_cases [of "(map (\<lambda>f. (f, run_validation p (user_field_required env f)
                       (user_field env rows i f) (map_of d f)))
            (filter (\<lambda>f. f \<notin> set (read_only_fields m)) (meta_fields m)))"]
  by (auto simp: is_valid_def)

lemma user_field_username: "user_field env rows i ''username'' = username_field env rows i"
  by (rule ext) (simp add: user_field_def)

lemma user_field_role: "user_field env rows i ''role'' = role_field"
  by (rule ext) (simp add: user_field_def)

lemma user_field_email: "user_field env rows i ''email'' = user_model_field env ''email'' rows i"
  by (rule ext) (simp add: user_field_def)

lemma signup_is_valid:
  "is_valid env SignupSerializer rows None False d =
     to_internal_value
       [(''username'', run_validation False True (username_field env rows None) (map_of d ''username'')),
        (''email'', run_validation False (required env ''user'' ''email'')
                      (user_model_field env ''email'' rows None) (map_of d ''email''))]"
  by (simp add: is_valid_def SignupSerializer_def user_field_username user_field_email
        user_field_required_def)

lemma signup_valid_username:
  assumes "is_valid env SignupSerializer rows None False d = Inr sd"
  shows "\<exists>n. map_of d ''username'' = Some n \<and> map_of sd ''username'' = Some (strip env n) \<and>
             strip env n \<noteq> [] \<and> length (strip env n) \<le> 150 \<and>
             username_validation env (strip env n) \<and>
             \<not> (\<exists>u\<in>set rows. username u = strip env n)"
  using assms unfolding signup_is_valid
  by (auto simp: run_validation_def username_field_def Let_def exists_iff
           split: option.splits if_splits field_result.splits sum.splits)

lemma strip_alice: "strip sample_env ''alice'' = ''alice''"
  by (simp add: sample_env_def isspace_def)

lemma strip_bob: "strip sample_env ''bob'' = ''bob''"
  by (simp add: sample_env_def isspace_def)

lemma bob_valid:
  "is_valid sample_env SignupSerializer (users alice_state) None False
     [(''username'', ''bob''), (''email'', ''bob@example.org'')] =
   Inr [(''username'', ''bob''), (''email'', ''bob@example.org'')]"
  unfolding signup_is_valid
  by (simp add: run_validation_def username_field_def strip_bob exists_iff alice_state_def
        alice_def Let_def)
     (simp add: sample_env_def)

lemma bob_created:
  "create_user sample_env (users alice_state) (Some ''bob'') (Some ''bob@example.org'') = bob"
  by (simp add: sample_env_def alice_state_def alice_def bob_def next_pk_def or_empty_def)

lemma bob_token: "make_token sample_env bob = ''code-bob-bob@example.org''"
  by (simp add: sample_env_def bob_def)

lemma to_internal_value_Inr:
  "to_internal_value rs = Inr d \<Longrightarrow>
     d = concat (map (\<lambda>(f, r). case r of Value v \<Rightarrow> [(f, v)] | _ \<Rightarrow> []) rs)"
  by (induction rs arbitrary: d rule: to_internal_value.induct)
     (auto split: field_result.splits sum.splits)

lemma to_internal_value_no_Error:
  "to_internal_value rs = Inr d \<Longrightarrow> (f, Error) \<notin> set rs"
  by (induction rs arbitrary: d rule: to_internal_value.induct)
     (auto split: field_result.splits sum.splits)

lemma map_of_validated:
  "distinct fs \<Longrightarrow>
     map_of (concat (map (\<lambda>(f, r). case r of Value v \<Rightarrow> [(f, v)] | _ \<Rightarrow> [])
                      (map (\<lambda>f. (f, g f)) fs))) k =
       (if k \<in> set fs then field_value (g k) else None)"
proof (induction fs)
  case Nil
  then show ?case by simp
next
  case (Cons a fs)
  then show ?case
    by (cases "g a") (auto simp: field_value_def)
qed

lemma keys_validated:
  "fst ` set (concat (map (\<lambda>(f, r). case r of Value v \<Rightarrow> [(f, v)] | _ \<Rightarrow> [])
                      (map (\<lambda>f. (f, g f)) fs))) \<subseteq> set fs"
  by (induction fs) (auto split: field_result.splits)

lemma distinct_validated:
  "distinct fs \<Longrightarrow>
     distinct (map fst (concat (map (\<lambda>(f, r). case r of Value v \<Rightarrow> [(f, v)] | _ \<Rightarrow> [])
                      (map (\<lambda>f. (f, g f)) fs))))"
proof (induction fs)
  case Nil
  then show ?case by simp
next
  case (Cons a fs)
  have "a \<notin> fst ` set (concat (map (\<lambda>(f, r). case r of Value v \<Rightarrow> [(f, v)] | _ \<Rightarrow> [])
                      (map (\<lambda>f. (f, g f)) fs)))"
    using keys_validated [of g fs] Cons.prems by auto
  with Cons show ?case
    by (cases "g a") auto
qed

lemma pk_update: "pk (foldl setattr u d) = pk u"
  by (induction d arbitrary: u) auto

lemma role_update: "''role'' \<notin> fst ` set d \<Longrightarrow> role (foldl setattr u d) = role u"
  by (induction d arbitrary: u) auto

lemma representation_setattr_other:
  "k \<noteq> f \<Longrightarrow> map_of (to_representation (setattr u (f, v))) k = map_of (to_representation u) k"
  by (auto simp: to_representation_def)

lemma representation_setattr_same:
  "f \<in> set (meta_fields UserSerializer) \<Longrightarrow> map_of (to_representation (setattr u (f, v))) f = Some v"
  by (auto simp: to_representation_def UserSerializer_def)

lemma representation_update:
  "distinct (map fst d) \<Longrightarrow> fst ` set d \<subseteq> set (meta_fields UserSerializer) \<Longrightarrow>
     map_of (to_representation (foldl setattr u d)) k =
       (case map_of d k of None \<Rightarrow> map_of (to_representation u) k | Some v \<Rightarrow> Some v)"
proof (induction d arbitrary: u)
  case Nil
  then show ?case by simp
next
  case (Cons a d)
  obtain f v where a: "a = (f, v)" by (cases a)
  have d: "distinct (map fst d)" "fst ` set d \<subseteq> set (meta_fields UserSerializer)"
    and f: "f \<in> set (meta_fields UserSerializer)" "f \<notin> fst ` set d"
    using Cons.prems a by auto
  have ih: "map_of (to_representation (foldl setattr (setattr u (f, v)) d)) k =
       (case map_of d k of None \<Rightarrow> map_of (to_representation (setattr u (f, v))) k | Some v \<Rightarrow> Some v)"
    by (rule Cons.IH [OF d])
  show ?case
  proof (cases "k = f")
    case True
    then have "map_of d k = None" using f(2) by (simp add: map_of_eq_None_iff)
    then show ?thesis using ih True a representation_setattr_same [OF f(1), of u v]
      by (simp del: setattr.simps)
  next
    case False
    then show ?thesis using ih a representation_setattr_other [OF False, of u v]
      by (simp del: setattr.simps split: option.splits)
  qed
qed

lemma is_valid_partial:
  assumes v: "is_valid env m rows i True d = Inr vd" and dist: "distinct (meta_fields m)"
  shows "map_of vd k =
           (if k \<in> set (meta_fields m) \<and> k \<notin> set (read_only_fields m)
            then (case map_of d k of None \<Rightarrow> None | Some x \<Rightarrow> user_field env rows i k x)
            else None)"
    and "distinct (map fst vd)"
    and "fst ` set vd \<subseteq> set (meta_fields m) - set (read_only_fields m)"
    and "k \<in> set (meta_fields m) \<Longrightarrow> k \<notin> set (read_only_fields m) \<Longrightarrow>
           map_of d k = Some x \<Longrightarrow> user_field env rows i k x \<noteq> None"
proof -
  let ?fs = "filter (\<lambda>f. f \<notin> set (read_only_fields m)) (meta_fields m)"
  let ?g = "\<lambda>f. run_validation True (user_field_required env f) (user_field env rows i f) (map_of d f)"
  have tv: "to_internal_value (map (\<lambda>f. (f, ?g f)) ?fs) = Inr vd"
    using v by (simp add: is_valid_def)
  have vd: "vd = concat (map (\<lambda>(f, r). case r of Value v \<Rightarrow> [(f, v)] | _ \<Rightarrow> [])
                      (map (\<lambda>f. (f, ?g f)) ?fs))"
    by (rule to_internal_value_Inr [OF tv])
  have dfs: "distinct ?fs" using dist by simp
  show "distinct (map fst vd)"
    unfolding vd by (rule distinct_validated [OF dfs])
  show "fst ` set vd \<subseteq> set (meta_fields m) - set (read_only_fields m)"
    unfolding vd using keys_validated [of ?g ?fs] by auto
  have look: "map_of vd k = (if k \<in> set ?fs then field_value (?g k) else None)"
    unfolding vd by (rule map_of_validated [OF dfs])
  show "map_of vd k =
           (if k \<in> set (meta_fields m) \<and> k \<notin> set (read_only_fields m)
            then (case map_of d k of None \<Rightarrow> None | Some x \<Rightarrow> user_field env rows i k x)
            else None)"
  proof (cases "k \<in> set ?fs")
    case False
    then show ?thesis using look by auto
  next
    case True
    then have "(k, ?g k) \<in> set (map (\<lambda>f. (f, ?g f)) ?fs)" by (simp add: image_iff)
    then have "?g k \<noteq> Error"
      using to_internal_value_no_Error [OF tv, of k] by auto
    then have "field_value (?g k) =
                 (case map_of d k of None \<Rightarrow> None | Some x \<Rightarrow> user_field env rows i k x)"
      by (auto simp: run_validation_def field_value_def split: option.splits)
    then show ?thesis using look True by auto
  qed
  show "user_field env rows i k x \<noteq> None"
    if "k \<in> set (meta_fields m)" "k \<notin> set (read_only_fields m)" "map_of d k = Some x"
  proof -
    have "(k, ?g k) \<in> set (map (\<lambda>f. (f, ?g f)) ?fs)" using that by (simp add: image_iff)
    then have "?g k \<noteq> Error"
      using to_internal_value_no_Error [OF tv, of k] by auto
    then show ?thesis using that(3) by (auto simp: run_validation_def split: option.splits)
  qed
qed

lemma save_row: "u \<in> set (save rows instance) \<Longrightarrow> pk u = pk instance \<Longrightarrow> u = instance"
  by (auto simp: save_def split: if_splits)

lemma save_other: "u \<in> set (save rows instance) \<Longrightarrow> pk u \<noteq> pk instance \<Longrightarrow> u \<in> set rows"
  by (auto simp: save_def split: if_splits)

lemma save_present: "instance' \<in> set rows \<Longrightarrow> pk instance' = pk instance \<Longrightarrow> instance \<in> set (save rows instance)"
  by (auto simp: save_def image_iff)

lemma distinct_user_fields: "distinct (meta_fields UserSerializer)" "distinct (meta_fields ReadOnlyRole)"
  by (simp_all add: UserSerializer_def ReadOnlyRole_def)

lemma alice_not_admin: "\<not> is_admin sample_env alice"
  by (simp add: sample_env_def alice_def)

lemma carol_admin: "is_admin sample_env carol"
  by (simp add: sample_env_def carol_def)

lemma alice_patch_valid:
  "is_valid sample_env ReadOnlyRole (users carol_state) (Some alice) True
     [(''role'', ''admin''), (''bio'', ''hi'')] = Inr [(''bio'', ''hi'')]"
  by (simp add: is_valid_def ReadOnlyRole_def UserSerializer_def run_validation_def user_field_def)
     (simp add: sample_env_def)

lemma carol_patch_valid:
  "is_valid sample_env UserSerializer (users carol_state) (Some carol) True
     [(''role'', ''moderator''), (''bio'', ''hi'')] = Inr [(''bio'', ''hi''), (''role'', ''moderator'')]"
  by (simp add: is_valid_def UserSerializer_def run_validation_def user_field_def role_field_def
        role_choices_def)
     (simp add: sample_env_def)

lemma alice_patch_result:
  "get_user_info sample_env carol_state alice_patch =
     Inr (carol_state\<lparr>users := [alice\<lparr>bio := ''hi''\<rparr>, carol]\<rparr>,
          Response (to_representation (alice\<lparr>bio := ''hi''\<rparr>)) 200)"
  by (simp add: get_user_info_def alice_patch_def alice_not_admin alice_patch_valid update_def)
     (simp add: carol_state_def save_def alice_def carol_def Let_def)

lemma carol_patch_result:
  "get_user_info sample_env carol_state carol_patch =
     Inr (carol_state\<lparr>users := [alice, carol\<lparr>bio := ''hi'', role := ''moderator''\<rparr>]\<rparr>,
          Response (to_representation (carol\<lparr>bio := ''hi'', role := ''moderator''\<rparr>)) 200)"
  by (simp add: get_user_info_def carol_patch_def carol_admin carol_patch_valid update_def)
     (simp add: carol_state_def save_def alice_def carol_def Let_def)


lemma get_object_or_404_none:
  "filter p rows = [] \<Longrightarrow> get_object_or_404 rows p = Inl Http404"
  by (simp add: get_object_or_404_def)

lemma get_object_or_404_one:
  "filter p rows = [x] \<Longrightarrow> get_object_or_404 rows p = Inr x"
  by (simp add: get_object_or_404_def)

lemma filter_single_holds: "filter p rows = [x] \<Longrightarrow> p x"
proof -
  assume "filter p rows = [x]"
  then have "x \<in> set (filter p rows)" by simp
  then show "p x" by simp
qed

lemma filter_filter_empty:
  "filter (\<lambda>r. p r \<and> q r) rows = [] \<Longrightarrow> filter p (filter q rows) = []"
  by (auto simp: filter_empty_conv)

lemma ReviewSerializer_is_valid_error:
  "ReviewSerializer_is_valid env st m u t p d = Inl e \<Longrightarrow> e = ValidationError"
  by (auto simp: ReviewSerializer_is_valid_def validate_def Let_def split: if_splits)

lemma CommentSerializer_is_valid_error:
  "CommentSerializer_is_valid env p d = Inl e \<Longrightarrow> e = ValidationError"
  by (auto simp: CommentSerializer_is_valid_def Let_def split: if_splits)

lemma bob_review_valid:
  "ReviewSerializer_is_valid sample_env two_titles_state ''POST'' bob 999 False
     \<lparr>rd_text = Some ''fine'', rd_score = Some 8\<rparr> = Inr \<lparr>rd_text = Some ''fine'', rd_score = Some 8\<rparr>"
  by (simp add: ReviewSerializer_is_valid_def run_validation_def score_field_def
        validate_score_def validate_def exists_iff two_titles_state_def alice_review_def
        field_value_def Let_def)
     (simp add: sample_env_def)




lemma char_field_Some_iff:
  "char_field env v = Some v' \<longleftrightarrow> v' = strip env v \<and> v' \<noteq> [] \<and> CHR 0x00 \<notin> set v'"
  by (auto simp: char_field_def Let_def)

lemma token_is_valid_cases:
  assumes "map_of d ''username'' = Some n" "map_of d ''confirmation_code'' = Some c"
  shows "TokenSerializer_is_valid env d =
           (case char_field env n of
              None \<Rightarrow> Inl ValidationError
            | Some n' \<Rightarrow>
                (case char_field env c of
                   None \<Rightarrow> Inl ValidationError
                 | Some c' \<Rightarrow> Inr [(''username'', n'), (''confirmation_code'', c')]))"
  using assms
  by (simp add: TokenSerializer_is_valid_def run_validation_def split: option.splits)

lemma get_object_or_404_Inr:
  "get_object_or_404 rows p = Inr x \<Longrightarrow> x \<in> set rows \<and> p x"
proof -
  assume "get_object_or_404 rows p = Inr x"
  then have "filter p rows = [x]"
    by (auto simp: get_object_or_404_def split: list.splits)
  then have "x \<in> set (filter p rows)" by simp
  then show ?thesis by simp
qed

lemma strip_code: "strip sample_env ''code-alice-alice@example.org'' = ''code-alice-alice@example.org''"
  by (simp add: sample_env_def isspace_def)

lemma alice_token_post:
  "GetTokenView_post sample_env 10 alice_state alice_token_request =
     Inr (alice_state, Response [(''token'', ''jwt-alice'')] 200)"
  by (simp add: GetTokenView_post_def alice_token_request_def TokenSerializer_is_valid_def
        run_validation_def char_field_def strip_alice strip_code get_object_or_404_def
        alice_state_def alice_def Let_def)
     (simp add: sample_env_def)

lemma alice_token_post_again:
  "GetTokenView_post sample_env 20 alice_state alice_token_request =
     Inr (alice_state, Response [(''token'', ''jwt-alice'')] 200)"
  by (simp add: GetTokenView_post_def alice_token_request_def TokenSerializer_is_valid_def
        run_validation_def char_field_def strip_alice strip_code get_object_or_404_def
        alice_state_def alice_def Let_def)
     (simp add: sample_env_def)
















subsection \<open>Reviews\<close>

text \<open>
  C1. The check for a repeated review raises its validation error exactly when the
  request is a \<open>POST\<close> and the review table already holds a review of the same author
  on the same title. A request of any other method passes with its data unchanged, and
  so does every request on which the check does not raise. So creating a review, for a
  user who has a review on the title, raises the validation error whatever the payload.
\<close>

theorem validate_duplicate_review:
  "(validate rows m author title_id d = Inl ValidationError \<longleftrightarrow>
      m = ''POST'' \<and> (\<exists>r\<in>set rows. review_author r = pk author \<and> review_title r = title_id)) \<and>
   (m \<noteq> ''POST'' \<longrightarrow> validate rows m author title_id d = Inr d) \<and>
   (validate rows m author title_id d \<noteq> Inl ValidationError \<longrightarrow>
      validate rows m author title_id d = Inr d) \<and>
   ((\<exists>r\<in>set (reviews st). review_author r = pk author \<and> review_title r = title_id) \<longrightarrow>
      ReviewViewSet_create env st author title_id rd = Inl ValidationError)"
  by (auto simp: validate_def exists_iff ReviewViewSet_create_def ReviewSerializer_is_valid_def
        Let_def)

theorem validate_duplicate_review_witness:
  "validate [alice_review] ''POST'' alice 1 \<lparr>rd_text = Some ''again'', rd_score = Some 3\<rparr>
     = Inl ValidationError \<and>
   validate [alice_review] ''PATCH'' alice 1 \<lparr>rd_text = None, rd_score = Some 3\<rparr>
     = Inr \<lparr>rd_text = None, rd_score = Some 3\<rparr> \<and>
   ReviewViewSet_create sample_env alice_state alice 1 \<lparr>rd_text = Some ''again'', rd_score = Some 3\<rparr>
     = Inl ValidationError"
proof -
  have a: "validate [alice_review] ''POST'' alice 1 \<lparr>rd_text = Some ''again'', rd_score = Some 3\<rparr>
     = Inl ValidationError"
    by (rule iffD2 [OF conjunct1 [OF validate_duplicate_review]])
       (simp add: alice_def alice_review_def)
  have b: "validate [alice_review] ''PATCH'' alice 1 \<lparr>rd_text = None, rd_score = Some 3\<rparr>
     = Inr \<lparr>rd_text = None, rd_score = Some 3\<rparr>"
    by (rule mp [OF conjunct1 [OF conjunct2 [OF validate_duplicate_review]]]) simp
  have c: "ReviewViewSet_create sample_env alice_state alice 1
             \<lparr>rd_text = Some ''again'', rd_score = Some 3\<rparr> = Inl ValidationError"
    by (rule mp [OF conjunct2 [OF conjunct2 [OF conjunct2 [OF validate_duplicate_review]]]])
       (simp add: alice_state_def alice_def alice_review_def)
  show ?thesis using a b c by simp
qed

text \<open>
  C2. A score passes \<open>validate_score\<close> exactly when it lies in the closed range from 1
  to 10, and then it is returned as it is; every other integer raises the validation
  error. The bounds 1 and 10 themselves are accepted.
\<close>

theorem validate_score_accepts_iff:
  "(validate_score v = Inr v \<longleftrightarrow> 1 \<le> v \<and> v \<le> 10) \<and>
   (validate_score v = Inl ValidationError \<longleftrightarrow> v < 1 \<or> 10 < v) \<and>
   validate_score 1 = Inr 1 \<and> validate_score 10 = Inr 10"
  by (auto simp: validate_score_def)

subsection \<open>Signup\<close>

text \<open>
  C4, as the code has it. When a user with the username and the address of the request
  is stored, the answer is the request's data with status 200 and the state is as
  before. Otherwise the payload goes through the signup serializer. When it does not
  pass, the validation error is raised and nothing is written. When it passes, the
  username that was validated is the stripped one of the payload and no stored user has
  it; the user is created from the validated data and added to the table, the
  confirmation code is the token made for that new user, one mail with that code goes to
  the new user's address, and the answer is the validated data with status 200.
\<close>

theorem signup_post_cases:
  "((\<exists>u\<in>set (users st). map_of d ''username'' = Some (username u) \<and>
                          map_of d ''email'' = Some (email u)) \<longrightarrow>
      SignupView_post env st d = Inr (st, Response d 200)) \<and>
   (\<not> (\<exists>u\<in>set (users st). map_of d ''username'' = Some (username u) \<and>
                            map_of d ''email'' = Some (email u)) \<longrightarrow>
      (case is_valid env SignupSerializer (users st) None False d of
         Inl e \<Rightarrow> e = ValidationError \<and> SignupView_post env st d = Inl ValidationError
       | Inr sd \<Rightarrow>
           (\<exists>n. map_of d ''username'' = Some n \<and> map_of sd ''username'' = Some (strip env n) \<and>
                \<not> (\<exists>u\<in>set (users st). username u = strip env n)) \<and>
           (let new_user = create_user env (users st) (map_of sd ''username'') (map_of sd ''email'')
            in SignupView_post env st d =
                 Inr (st\<lparr>users := users st @ [new_user],
                         outbox := outbox st @
                           [\<lparr>subject = ''Confirmation code for YaMDb'',
                             message = Confirmation (username new_user) (make_token env new_user),
                             recipient_list = [email new_user]\<rparr>]\<rparr>,
                      Response sd 200))))"
proof (intro conjI impI)
  assume "\<exists>u\<in>set (users st). map_of d ''username'' = Some (username u) \<and>
                          map_of d ''email'' = Some (email u)"
  then show "SignupView_post env st d = Inr (st, Response d 200)"
    by (auto simp: SignupView_post_def exists_iff)
next
  assume no: "\<not> (\<exists>u\<in>set (users st). map_of d ''username'' = Some (username u) \<and>
                            map_of d ''email'' = Some (email u))"
  then have ne: "\<not> exists (users st) (\<lambda>u. Some (username u) = map_of d ''username'' \<and>
                    Some (email u) = map_of d ''email'')"
    by (auto simp: exists_iff)
  show "case is_valid env SignupSerializer (users st) None False d of
         Inl e \<Rightarrow> e = ValidationError \<and> SignupView_post env st d = Inl ValidationError
       | Inr sd \<Rightarrow>
           (\<exists>n. map_of d ''username'' = Some n \<and> map_of sd ''username'' = Some (strip env n) \<and>
                \<not> (\<exists>u\<in>set (users st). username u = strip env n)) \<and>
           (let new_user = create_user env (users st) (map_of sd ''username'') (map_of sd ''email'')
            in SignupView_post env st d =
                 Inr (st\<lparr>users := users st @ [new_user],
                         outbox := outbox st @
                           [\<lparr>subject = ''Confirmation code for YaMDb'',
                             message = Confirmation (username new_user) (make_token env new_user),
                             recipient_list = [email new_user]\<rparr>]\<rparr>,
                      Response sd 200))"
  proof (cases "is_valid env SignupSerializer (users st) None False d")
    case (Inl e)
    then show ?thesis using ne is_valid_error [OF Inl] by (simp add: SignupView_post_def)
  next
    case (Inr sd)
    then show ?thesis using ne signup_valid_username [OF Inr]
      by (simp add: SignupView_post_def Let_def) blast
  qed
qed

theorem signup_post_cases_witness:
  "SignupView_post sample_env alice_state [(''username'', ''bob''), (''email'', ''bob@example.org'')] =
     Inr (alice_state\<lparr>users := [alice, bob],
            outbox := [\<lparr>subject = ''Confirmation code for YaMDb'',
                        message = Confirmation ''bob'' ''code-bob-bob@example.org'',
                        recipient_list = [''bob@example.org'']\<rparr>]\<rparr>,
          Response [(''username'', ''bob''), (''email'', ''bob@example.org'')] 200)"
proof -
  have no: "\<not> (\<exists>u\<in>set (users alice_state).
               map_of [(''username'', ''bob''), (''email'', ''bob@example.org'')] ''username''
                 = Some (username u) \<and>
               map_of [(''username'', ''bob''), (''email'', ''bob@example.org'')] ''email''
                 = Some (email u))"
    by (simp add: alice_state_def alice_def)
  have "case is_valid sample_env SignupSerializer (users alice_state) None False
               [(''username'', ''bob''), (''email'', ''bob@example.org'')] of
         Inl e \<Rightarrow> e = ValidationError \<and>
           SignupView_post sample_env alice_state
             [(''username'', ''bob''), (''email'', ''bob@example.org'')] = Inl ValidationError
       | Inr sd \<Rightarrow>
           (\<exists>n. map_of [(''username'', ''bob''), (''email'', ''bob@example.org'')] ''username''
                   = Some n \<and>
                map_of sd ''username'' = Some (strip sample_env n) \<and>
                \<not> (\<exists>u\<in>set (users alice_state). username u = strip sample_env n)) \<and>
           (let new_user = create_user sample_env (users alice_state)
                             (map_of sd ''username'') (map_of sd ''email'')
            in SignupView_post sample_env alice_state
                 [(''username'', ''bob''), (''email'', ''bob@example.org'')] =
                 Inr (alice_state\<lparr>users := users alice_state @ [new_user],
                         outbox := outbox alice_state @
                           [\<lparr>subject = ''Confirmation code for YaMDb'',
                             message = Confirmation (username new_user)
                                         (make_token sample_env new_user),
                             recipient_list = [email new_user]\<rparr>]\<rparr>,
                      Response sd 200))"
    by (rule mp [OF conjunct2 [OF signup_post_cases] no])
  then have "SignupView_post sample_env alice_state
               [(''username'', ''bob''), (''email'', ''bob@example.org'')] =
                 Inr (alice_state\<lparr>users := users alice_state @ [bob],
                         outbox := outbox alice_state @
                           [\<lparr>subject = ''Confirmation code for YaMDb'',
                             message = Confirmation (username bob) (make_token sample_env bob),
                             recipient_list = [email bob]\<rparr>]\<rparr>,
                      Response [(''username'', ''bob''), (''email'', ''bob@example.org'')] 200)"
    unfolding bob_valid by (simp add: bob_created)
  then show ?thesis
    by (simp add: bob_token) (simp add: bob_def alice_state_def)
qed

text \<open>
  The claim C4 as the specification states it, with the user created whenever no stored
  user has the pair of the request, fails: the username of a stored user with another
  address is refused, and no user is created.
\<close>

theorem signup_not_always_created:
  "\<not> (\<exists>u\<in>set (users alice_state). username u = ''alice'' \<and> email u = ''bob@example.org'') \<and>
   SignupView_post sample_env alice_state
     [(''username'', ''alice''), (''email'', ''bob@example.org'')] = Inl ValidationError"
  by (simp add: SignupView_post_def exists_iff alice_state_def alice_def signup_is_valid
        run_validation_def username_field_def strip_alice Let_def)

text \<open>
  C9. A signup whose username and address are those of a stored user is answered with
  the request's data and status 200, and the state after it is the state before it: no
  user is added and the outbox holds no new mail, so no confirmation code is made or
  sent.
\<close>

theorem signup_existing_pair_no_effect:
  assumes "\<exists>u\<in>set (users st). map_of d ''username'' = Some (username u) \<and>
                              map_of d ''email'' = Some (email u)"
  shows "SignupView_post env st d = Inr (st, Response d 200)"
  using assms by (auto simp: SignupView_post_def exists_iff)

theorem signup_existing_pair_no_effect_witness:
  "SignupView_post sample_env alice_state
     [(''username'', ''alice''), (''email'', ''alice@example.org'')] =
   Inr (alice_state, Response [(''username'', ''alice''), (''email'', ''alice@example.org'')] 200)"
  by (rule signup_existing_pair_no_effect) (simp add: alice_state_def alice_def)

text \<open>
  C10. A signup whose username, as the serializer reads it, is that of a stored user,
  while no stored user has both the username and the address of the request, is not
  answered as already registered: the uniqueness of the username makes the serializer
  raise the validation error, which is answered with status 400, and nothing is
  written.
\<close>

theorem signup_taken_username_rejected:
  assumes "map_of d ''username'' = Some n"
      and "\<exists>u\<in>set (users st). username u = strip env n"
      and "\<not> (\<exists>u\<in>set (users st). Some (username u) = map_of d ''username'' \<and>
                                  Some (email u) = map_of d ''email'')"
  shows "SignupView_post env st d = Inl ValidationError \<and> status_of_error ValidationError = 400"
proof -
  have "username_field env (users st) None n = None"
    using assms(2) by (auto simp: username_field_def Let_def exists_iff)
  then have "run_validation False True (username_field env (users st) None)
               (map_of d ''username'') = Error"
    using assms(1) by (simp add: run_validation_def)
  then have "is_valid env SignupSerializer (users st) None False d = Inl ValidationError"
    unfolding signup_is_valid by simp
  then show ?thesis
    using assms(3) by (simp add: SignupView_post_def exists_iff status_of_error_def)
qed

theorem signup_taken_username_rejected_witness:
  "SignupView_post sample_env alice_state
     [(''username'', ''alice''), (''email'', ''carol@example.org'')] = Inl ValidationError \<and>
   status_of_error ValidationError = 400"
  by (rule signup_taken_username_rejected [where n = "''alice''"])
     (simp_all add: alice_state_def alice_def strip_alice)

subsection \<open>Token exchange\<close>

text \<open>
  C5. A token request carries a username and a confirmation code. A character field
  accepts a value when, stripped, it is not empty and holds no null character. When
  the field refuses the username or the code, the validation error is raised, of status
  400, and no user is looked up. When both pass and exactly one stored user has the
  username as validated, the code as validated is checked against that user's record at
  the time of the request: when the check passes the answer is the access token of that
  user with status 200, and when it fails the answer is the bad-request response, of
  status 400. The state is not changed.
\<close>

theorem token_exchange_checks_code:
  assumes "map_of d ''username'' = Some n" and "map_of d ''confirmation_code'' = Some c"
  shows "(char_field env n = None \<or> char_field env c = None \<longrightarrow>
            GetTokenView_post env now st d = Inl ValidationError) \<and>
         (\<forall>n' c' u. char_field env n = Some n' \<longrightarrow> char_field env c = Some c' \<longrightarrow>
            get_object_or_404 (users st) (\<lambda>u. username u = n') = Inr u \<longrightarrow>
              u \<in> set (users st) \<and> username u = n' \<and>
              (check_token env now u c' \<longrightarrow>
                 GetTokenView_post env now st d =
                   Inr (st, Response [(''token'', for_user env now u)] 200)) \<and>
              (\<not> check_token env now u c' \<longrightarrow>
                 GetTokenView_post env now st d = Inr (st, HttpResponseBadRequest))) \<and>
         (\<forall>v v'. char_field env v = Some v' \<longleftrightarrow>
            v' = strip env v \<and> v' \<noteq> [] \<and> CHR 0x00 \<notin> set v') \<and>
         status_code HttpResponseBadRequest = 400 \<and> status_of_error ValidationError = 400"
proof (intro conjI impI allI)
  assume "char_field env n = None \<or> char_field env c = None"
  then show "GetTokenView_post env now st d = Inl ValidationError"
    by (auto simp: GetTokenView_post_def token_is_valid_cases [OF assms] split: option.splits)
next
  fix n' c' u
  assume n: "char_field env n = Some n'" and c: "char_field env c = Some c'"
    and g: "get_object_or_404 (users st) (\<lambda>u. username u = n') = Inr u"
  show "u \<in> set (users st)" "username u = n'"
    using get_object_or_404_Inr [OF g] by simp_all
  show "GetTokenView_post env now st d = Inr (st, Response [(''token'', for_user env now u)] 200)"
    if "check_token env now u c'"
    using that by (simp add: GetTokenView_post_def token_is_valid_cases [OF assms] n c g)
  show "GetTokenView_post env now st d = Inr (st, HttpResponseBadRequest)"
    if "\<not> check_token env now u c'"
    using that by (simp add: GetTokenView_post_def token_is_valid_cases [OF assms] n c g)
next
  fix v v'
  show "char_field env v = Some v' \<longleftrightarrow> v' = strip env v \<and> v' \<noteq> [] \<and> CHR 0x00 \<notin> set v'"
    by (rule char_field_Some_iff)
qed (simp_all add: status_code_def status_of_error_def)

theorem token_exchange_checks_code_witness:
  "GetTokenView_post sample_env 10 alice_state
     [(''username'', ''alice''), (''confirmation_code'', ''code-alice-alice@example.org'')] =
     Inr (alice_state, Response [(''token'', ''jwt-alice'')] 200) \<and>
   GetTokenView_post sample_env 10 alice_state
     [(''username'', ''alice''), (''confirmation_code'', ''code-bob-bob@example.org'')] =
     Inr (alice_state, HttpResponseBadRequest) \<and>
   GetTokenView_post sample_env 10 alice_state
     [(''username'', ''alice''), (''confirmation_code'', [CHR ''x'', CHR 0x00])] =
     Inl ValidationError"
proof -
  have cn: "char_field sample_env ''alice'' = Some ''alice''"
    by (simp add: char_field_def strip_alice)
  have c1: "char_field sample_env ''code-alice-alice@example.org'' =
              Some ''code-alice-alice@example.org''"
    by (simp add: char_field_def strip_code)
  have s2: "strip sample_env ''code-bob-bob@example.org'' = ''code-bob-bob@example.org''"
    by (simp add: sample_env_def isspace_def)
  have c2: "char_field sample_env ''code-bob-bob@example.org'' = Some ''code-bob-bob@example.org''"
    by (simp add: char_field_def s2)
  have s3: "strip sample_env [CHR ''x'', CHR 0x00] = [CHR ''x'', CHR 0x00]"
    by (simp add: sample_env_def isspace_def)
  have c3: "char_field sample_env [CHR ''x'', CHR 0x00] = None"
    by (simp add: char_field_def s3)
  have g: "get_object_or_404 (users alice_state) (\<lambda>u. username u = ''alice'') = Inr alice"
    by (simp add: get_object_or_404_def alice_state_def) (simp add: alice_def)
  have ok: "check_token sample_env 10 alice ''code-alice-alice@example.org''"
    by (simp add: sample_env_def alice_def)
  have bad: "\<not> check_token sample_env 10 alice ''code-bob-bob@example.org''"
    by (simp add: sample_env_def alice_def)
  have f: "for_user sample_env 10 alice = ''jwt-alice''" by (simp add: sample_env_def alice_def)
  have m: "map_of [(''username'', ''alice''), (''confirmation_code'', x)] ''username'' = Some ''alice''"
    "map_of [(''username'', ''alice''), (''confirmation_code'', x)] ''confirmation_code'' = Some x"
    for x :: string
    by simp_all
  have a: "GetTokenView_post sample_env 10 alice_state
     [(''username'', ''alice''), (''confirmation_code'', ''code-alice-alice@example.org'')] =
     Inr (alice_state, Response [(''token'', ''jwt-alice'')] 200)"
    using token_exchange_checks_code [OF m [of "''code-alice-alice@example.org''"], of sample_env 10 alice_state] cn c1 g ok f by simp
  have b: "GetTokenView_post sample_env 10 alice_state
     [(''username'', ''alice''), (''confirmation_code'', ''code-bob-bob@example.org'')] =
     Inr (alice_state, HttpResponseBadRequest)"
    using token_exchange_checks_code [OF m [of "''code-bob-bob@example.org''"], of sample_env 10 alice_state] cn c2 g bad by simp
  have c: "GetTokenView_post sample_env 10 alice_state
     [(''username'', ''alice''), (''confirmation_code'', [CHR ''x'', CHR 0x00])] =
     Inl ValidationError"
    using token_exchange_checks_code [OF m [of "[CHR ''x'', CHR 0x00]"], of sample_env 10 alice_state] c3 by simp
  show ?thesis using a b c by simp
qed

text \<open>
  C6, as the code has it. A token exchange that is answered with a token has written
  nothing: the state after it is the state before it. The code of the request, as
  validated, passed the check against a stored user's record at that time. The same
  request made on the resulting state at any time is decided by that check at that
  time: it is answered with a token again whenever the check accepts the code then, and
  with the bad-request response when the check refuses it then.
\<close>

theorem token_exchange_not_consumed:
  assumes "GetTokenView_post env now st d = Inr (st', Response b 200)"
  shows "st' = st \<and>
         (\<exists>u c0 c. u \<in> set (users st) \<and> map_of d ''confirmation_code'' = Some c0 \<and>
            c = strip env c0 \<and> check_token env now u c \<and>
            (\<forall>later.
               (check_token env later u c \<longrightarrow>
                  GetTokenView_post env later st' d =
                    Inr (st', Response [(''token'', for_user env later u)] 200)) \<and>
               (\<not> check_token env later u c \<longrightarrow>
                  GetTokenView_post env later st' d = Inr (st', HttpResponseBadRequest))))"
proof -
  obtain vd where vd: "TokenSerializer_is_valid env d = Inr vd"
    using assms by (auto simp: GetTokenView_post_def split: sum.splits)
  obtain n' where n': "map_of vd ''username'' = Some n'"
    using assms vd by (auto simp: GetTokenView_post_def split: option.splits)
  obtain u where u: "get_object_or_404 (users st) (\<lambda>u. username u = n') = Inr u"
    using assms vd n' by (auto simp: GetTokenView_post_def split: sum.splits)
  obtain c where c: "map_of vd ''confirmation_code'' = Some c"
    using assms vd n' u by (auto simp: GetTokenView_post_def split: option.splits)
  have ok: "check_token env now u c" and st: "st' = st"
    using assms vd n' u c by (auto simp: GetTokenView_post_def split: if_splits)
  have "\<exists>c0. map_of d ''confirmation_code'' = Some c0 \<and> c = strip env c0"
    using vd c
    by (auto simp: TokenSerializer_is_valid_def run_validation_def char_field_def Let_def
             split: option.splits if_splits)
  then obtain c0 where c0: "map_of d ''confirmation_code'' = Some c0" "c = strip env c0"
    by blast
  have later: "(check_token env later u c \<longrightarrow>
                  GetTokenView_post env later st' d =
                    Inr (st', Response [(''token'', for_user env later u)] 200)) \<and>
               (\<not> check_token env later u c \<longrightarrow>
                  GetTokenView_post env later st' d = Inr (st', HttpResponseBadRequest))" for later
    using vd n' u c st by (simp add: GetTokenView_post_def)
  have "u \<in> set (users st)" using get_object_or_404_Inr [OF u] by simp
  with st c0 ok later show ?thesis by blast
qed

theorem token_exchange_not_consumed_witness:
  "GetTokenView_post sample_env 10 alice_state alice_token_request =
     Inr (alice_state, Response [(''token'', ''jwt-alice'')] 200) \<and>
   GetTokenView_post sample_env 20 alice_state alice_token_request =
     Inr (alice_state, Response [(''token'', ''jwt-alice'')] 200) \<and>
   GetTokenView_post sample_env 50 alice_state alice_token_request =
     Inr (alice_state, HttpResponseBadRequest)"
proof -
  obtain u c0 c where u: "u \<in> set (users alice_state)"
    and c0: "map_of alice_token_request ''confirmation_code'' = Some c0" "c = strip sample_env c0"
    and later: "\<And>later.
               (check_token sample_env later u c \<longrightarrow>
                  GetTokenView_post sample_env later alice_state alice_token_request =
                    Inr (alice_state, Response [(''token'', for_user sample_env later u)] 200)) \<and>
               (\<not> check_token sample_env later u c \<longrightarrow>
                  GetTokenView_post sample_env later alice_state alice_token_request =
                    Inr (alice_state, HttpResponseBadRequest))"
    using token_exchange_not_consumed [OF alice_token_post] by blast
  have ua: "u = alice" using u by (simp add: alice_state_def)
  have "c0 = ''code-alice-alice@example.org''"
    using c0(1) by (simp add: alice_token_request_def)
  then have c: "c = ''code-alice-alice@example.org''"
    by (simp add: c0(2) strip_code)
  have t2: "check_token sample_env 20 alice ''code-alice-alice@example.org''"
    by (simp add: sample_env_def alice_def)
  have t5: "\<not> check_token sample_env 50 alice ''code-alice-alice@example.org''"
    by (simp add: sample_env_def alice_def)
  have f: "for_user sample_env 20 alice = ''jwt-alice''" by (simp add: sample_env_def alice_def)
  have a2: "GetTokenView_post sample_env 20 alice_state alice_token_request =
     Inr (alice_state, Response [(''token'', ''jwt-alice'')] 200)"
    using later [of 20] t2 f unfolding ua c by simp
  have a5: "GetTokenView_post sample_env 50 alice_state alice_token_request =
     Inr (alice_state, HttpResponseBadRequest)"
    using later [of 50] t5 unfolding ua c by simp
  show ?thesis using alice_token_post a2 a5 by simp
qed

text \<open>
  The claim C6 as the specification states it, that a code cannot be exchanged a second
  time, fails: the request that was answered with a token is answered with a token again
  when it is repeated on the resulting state.
\<close>

theorem token_exchange_repeats:
  "\<exists>st' r. GetTokenView_post sample_env 10 alice_state alice_token_request = Inr (st', r) \<and>
           status_code r = 200 \<and>
           (\<exists>st'' r'. GetTokenView_post sample_env 20 st' alice_token_request = Inr (st'', r') \<and>
                      status_code r' = 200)"
  by (simp add: alice_token_post alice_token_post_again status_code_def)

subsection \<open>The profile of the caller\<close>

text \<open>
  C3. A \<open>PATCH\<close> to the caller's own profile that is answered has replaced the
  caller's row by the updated instance, which the response shows. When the caller is not
  an admin, the role of that instance is the role the caller had, whatever the payload
  says about the role. When the caller is an admin and the payload names a role, the
  stored role is that role, as validated. For either caller, each of the other five
  fields that the payload names is stored with its validated value.
\<close>

theorem get_user_info_patch_role:
  assumes patch: "http_method request = ''PATCH''"
      and res: "get_user_info env st request = Inr (st', resp)"
  shows "\<exists>instance.
           resp = Response (to_representation instance) 200 \<and>
           pk instance = pk (user request) \<and>
           users st' = save (users st) instance \<and>
           (\<forall>u\<in>set (users st'). pk u = pk (user request) \<longrightarrow> u = instance) \<and>
           (user request \<in> set (users st) \<longrightarrow> instance \<in> set (users st')) \<and>
           (\<not> is_admin env (user request) \<longrightarrow> role instance = role (user request)) \<and>
           (is_admin env (user request) \<longrightarrow>
              (\<forall>v. map_of (data request) ''role'' = Some v \<longrightarrow> role_field v = Some (role instance))) \<and>
           (\<forall>f\<in>{''username'', ''email'', ''first_name'', ''last_name'', ''bio''}. \<forall>v.
              map_of (data request) f = Some v \<longrightarrow>
                user_field env (users st) (Some (user request)) f v =
                  map_of (to_representation instance) f)"
proof -
  let ?m = "if is_admin env (user request) then UserSerializer else ReadOnlyRole"
  obtain vd where vd: "is_valid env ?m (users st) (Some (user request)) True (data request) = Inr vd"
    and st': "st' = st\<lparr>users := save (users st) (update (user request) vd)\<rparr>"
    and resp: "resp = Response (to_representation (update (user request) vd)) 200"
    using res patch by (auto simp: get_user_info_def Let_def split: sum.splits)
  let ?i = "update (user request) vd"
  have dm: "distinct (meta_fields ?m)" using distinct_user_fields by simp
  note iv = is_valid_partial [OF vd dm]
  have mf: "meta_fields ?m = meta_fields UserSerializer" by (simp add: ReadOnlyRole_def)
  have keys: "fst ` set vd \<subseteq> set (meta_fields UserSerializer)" using iv(3) mf by auto
  have rep: "map_of (to_representation ?i) k =
       (case map_of vd k of None \<Rightarrow> map_of (to_representation (user request)) k | Some v \<Rightarrow> Some v)" for k
    unfolding update_def by (rule representation_update [OF iv(2) keys])
  have pk: "pk ?i = pk (user request)" by (simp add: update_def pk_update)
  have stored: "\<forall>u\<in>set (users st'). pk u = pk (user request) \<longrightarrow> u = ?i"
    using st' pk save_row [of _ "users st" ?i] by auto
  have present: "user request \<in> set (users st) \<longrightarrow> ?i \<in> set (users st')"
    using st' pk save_present [of "user request" "users st" ?i] by auto
  have nonadmin: "\<not> is_admin env (user request) \<longrightarrow> role ?i = role (user request)"
  proof
    assume "\<not> is_admin env (user request)"
    then have "''role'' \<notin> fst ` set vd" using iv(3) by (auto simp: ReadOnlyRole_def)
    then show "role ?i = role (user request)" by (simp add: update_def role_update)
  qed
  have admin: "is_admin env (user request) \<longrightarrow>
              (\<forall>v. map_of (data request) ''role'' = Some v \<longrightarrow> role_field v = Some (role ?i))"
  proof (intro impI allI)
    fix v assume a: "is_admin env (user request)" and r: "map_of (data request) ''role'' = Some v"
    have "map_of vd ''role'' = role_field v"
      using iv(1) [of "''role''"] a r by (simp add: UserSerializer_def user_field_role)
    moreover have "map_of (to_representation ?i) ''role'' = Some (role ?i)"
      by (simp add: to_representation_def)
    moreover have "user_field env (users st) (Some (user request)) ''role'' v \<noteq> None"
      using iv(4) [of "''role''" v] a r by (simp add: UserSerializer_def)
    ultimately show "role_field v = Some (role ?i)"
      using rep [of "''role''"] by (auto simp: user_field_role)
  qed
  have others: "\<forall>f\<in>{''username'', ''email'', ''first_name'', ''last_name'', ''bio''}. \<forall>v.
              map_of (data request) f = Some v \<longrightarrow>
                user_field env (users st) (Some (user request)) f v =
                  map_of (to_representation ?i) f"
  proof (intro ballI impI allI)
    fix f v assume f: "f \<in> {''username'', ''email'', ''first_name'', ''last_name'', ''bio''}"
      and d: "map_of (data request) f = Some v"
    have w: "f \<in> set (meta_fields ?m) \<and> f \<notin> set (read_only_fields ?m)"
      using f by (auto simp: UserSerializer_def ReadOnlyRole_def)
    have lk: "map_of vd f = user_field env (users st) (Some (user request)) f v"
      using iv(1) [of f] w d by simp
    have "user_field env (users st) (Some (user request)) f v \<noteq> None"
      using iv(4) [of f v] w d by simp
    then obtain v' where "user_field env (users st) (Some (user request)) f v = Some v'"
      by auto
    then show "user_field env (users st) (Some (user request)) f v = map_of (to_representation ?i) f"
      using lk rep [of f] by simp
  qed
  show ?thesis
    using resp pk st' stored present nonadmin admin others by (intro exI [of _ ?i]) simp
qed

theorem get_user_info_patch_role_witness:
  "(\<exists>st' body. get_user_info sample_env carol_state alice_patch = Inr (st', Response body 200) \<and>
       map_of body ''role'' = Some ''user'' \<and> map_of body ''bio'' = Some ''hi'') \<and>
   (\<exists>st' body. get_user_info sample_env carol_state carol_patch = Inr (st', Response body 200) \<and>
       map_of body ''role'' = Some ''moderator'' \<and> map_of body ''bio'' = Some ''hi'')"
proof -
  have pa: "http_method alice_patch = ''PATCH''" and pr: "http_method carol_patch = ''PATCH''"
    by (simp_all add: alice_patch_def carol_patch_def)
  have ua: "user alice_patch = alice" and ur: "user carol_patch = carol"
    by (simp_all add: alice_patch_def carol_patch_def)
  obtain i where i: "Response (to_representation (alice\<lparr>bio := ''hi''\<rparr>)) 200 =
                       Response (to_representation i) 200"
      and ri: "\<not> is_admin sample_env (user alice_patch) \<longrightarrow> role i = role (user alice_patch)"
      and bi: "\<forall>f\<in>{''username'', ''email'', ''first_name'', ''last_name'', ''bio''}. \<forall>v.
              map_of (data alice_patch) f = Some v \<longrightarrow>
                user_field sample_env (users carol_state) (Some (user alice_patch)) f v =
                  map_of (to_representation i) f"
    using get_user_info_patch_role [OF pa alice_patch_result] by blast
  have "role i = ''user''" using ri ua alice_not_admin by (simp add: alice_def)
  then have a1: "map_of (to_representation i) ''role'' = Some ''user''"
    by (simp add: to_representation_def)
  have "user_field sample_env (users carol_state) (Some (user alice_patch)) ''bio'' ''hi'' =
                  map_of (to_representation i) ''bio''"
    using bi by (simp add: alice_patch_def)
  then have a2: "map_of (to_representation i) ''bio'' = Some ''hi''"
    by (simp add: user_field_def sample_env_def)
  obtain j where j: "Response (to_representation (carol\<lparr>bio := ''hi'', role := ''moderator''\<rparr>)) 200 =
                       Response (to_representation j) 200"
      and rj: "is_admin sample_env (user carol_patch) \<longrightarrow>
              (\<forall>v. map_of (data carol_patch) ''role'' = Some v \<longrightarrow> role_field v = Some (role j))"
      and bj: "\<forall>f\<in>{''username'', ''email'', ''first_name'', ''last_name'', ''bio''}. \<forall>v.
              map_of (data carol_patch) f = Some v \<longrightarrow>
                user_field sample_env (users carol_state) (Some (user carol_patch)) f v =
                  map_of (to_representation j) f"
    using get_user_info_patch_role [OF pr carol_patch_result] by blast
  have "role_field ''moderator'' = Some (role j)"
    using rj ur carol_admin by (simp add: carol_patch_def)
  then have "role j = ''moderator''" by (simp add: role_field_def role_choices_def)
  then have b1: "map_of (to_representation j) ''role'' = Some ''moderator''"
    by (simp add: to_representation_def)
  have "user_field sample_env (users carol_state) (Some (user carol_patch)) ''bio'' ''hi'' =
                  map_of (to_representation j) ''bio''"
    using bj by (simp add: carol_patch_def)
  then have b2: "map_of (to_representation j) ''bio'' = Some ''hi''"
    by (simp add: user_field_def sample_env_def)
  show ?thesis
    using alice_patch_result carol_patch_result i j a1 a2 b1 b2 by simp
qed

subsection \<open>Nested lookups\<close>

text \<open>
  C7, as the code has it. When no title has the id of the path, listing reviews or
  comments and looking a review or a comment up (the first step of retrieving, updating
  and deleting) raise the not-found error, of status 404; creating a review or a comment
  raises it too, but only after the payload has passed the serializer: a payload that
  does not pass is answered with the validation error, of status 400, whatever the ids.
  When the title is there and no review of that title has the review id of the path,
  be it that no review has this id or that the review with this id is of another title,
  looking the review up, listing its comments, looking a comment up and creating a
  comment behave in the same way.
\<close>

theorem nested_lookup_not_found:
  "(filter (\<lambda>t. title_pk t = title_id) (titles st) = [] \<longrightarrow>
      ReviewViewSet_list st title_id = Inl Http404 \<and>
      ReviewViewSet_get_object st title_id review_id = Inl Http404 \<and>
      CommentViewSet_list st title_id review_id = Inl Http404 \<and>
      CommentViewSet_get_object st title_id review_id comment_id = Inl Http404 \<and>
      ReviewViewSet_create env st u title_id rd =
        (case ReviewSerializer_is_valid env st ''POST'' u title_id False rd of
           Inl e \<Rightarrow> Inl ValidationError
         | Inr vd \<Rightarrow> Inl Http404) \<and>
      CommentViewSet_create env st u title_id review_id ct =
        (case CommentSerializer_is_valid env False ct of
           Inl e \<Rightarrow> Inl ValidationError
         | Inr vt \<Rightarrow> Inl Http404)) \<and>
   (filter (\<lambda>t. title_pk t = title_id) (titles st) = [t] \<longrightarrow>
    filter (\<lambda>r. review_pk r = review_id \<and> review_title r = title_id) (reviews st) = [] \<longrightarrow>
      ReviewViewSet_get_object st title_id review_id = Inl Http404 \<and>
      CommentViewSet_list st title_id review_id = Inl Http404 \<and>
      CommentViewSet_get_object st title_id review_id comment_id = Inl Http404 \<and>
      CommentViewSet_create env st u title_id review_id ct =
        (case CommentSerializer_is_valid env False ct of
           Inl e \<Rightarrow> Inl ValidationError
         | Inr vt \<Rightarrow> Inl Http404)) \<and>
   status_of_error Http404 = 404 \<and> status_of_error ValidationError = 400"
proof (intro conjI impI)
  assume a: "filter (\<lambda>t. title_pk t = title_id) (titles st) = []"
  note n = get_object_or_404_none [OF a]
  show "ReviewViewSet_list st title_id = Inl Http404"
    by (simp add: ReviewViewSet_list_def ReviewViewSet_get_queryset_def n)
  show "ReviewViewSet_get_object st title_id review_id = Inl Http404"
    by (simp add: ReviewViewSet_get_object_def ReviewViewSet_get_queryset_def n)
  show "CommentViewSet_list st title_id review_id = Inl Http404"
    by (simp add: CommentViewSet_list_def CommentViewSet_get_queryset_def n)
  show "CommentViewSet_get_object st title_id review_id comment_id = Inl Http404"
    by (simp add: CommentViewSet_get_object_def CommentViewSet_get_queryset_def n)
  show "ReviewViewSet_create env st u title_id rd =
        (case ReviewSerializer_is_valid env st ''POST'' u title_id False rd of
           Inl e \<Rightarrow> Inl ValidationError
         | Inr vd \<Rightarrow> Inl Http404)"
    using ReviewSerializer_is_valid_error [of env st "''POST''" u title_id False rd]
    by (auto simp: ReviewViewSet_create_def ReviewViewSet_perform_create_def n split: sum.splits)
  show "CommentViewSet_create env st u title_id review_id ct =
        (case CommentSerializer_is_valid env False ct of
           Inl e \<Rightarrow> Inl ValidationError
         | Inr vt \<Rightarrow> Inl Http404)"
    using CommentSerializer_is_valid_error [of env False ct]
    by (auto simp: CommentViewSet_create_def CommentViewSet_perform_create_def n split: sum.splits)
next
  assume a: "filter (\<lambda>t. title_pk t = title_id) (titles st) = [t]"
    and b: "filter (\<lambda>r. review_pk r = review_id \<and> review_title r = title_id) (reviews st) = []"
  have t: "title_pk t = title_id" using filter_single_holds [OF a] .
  note g = get_object_or_404_one [OF a]
  have b': "filter (\<lambda>r. review_pk r = review_id \<and> review_title r = title_pk t) (reviews st) = []"
    using b t by simp
  note h = get_object_or_404_none [OF b']
  show "ReviewViewSet_get_object st title_id review_id = Inl Http404"
    using filter_filter_empty [OF b']
    by (simp add: ReviewViewSet_get_object_def ReviewViewSet_get_queryset_def g
          get_object_or_404_none)
  show "CommentViewSet_list st title_id review_id = Inl Http404"
    by (simp add: CommentViewSet_list_def CommentViewSet_get_queryset_def g h)
  show "CommentViewSet_get_object st title_id review_id comment_id = Inl Http404"
    by (simp add: CommentViewSet_get_object_def CommentViewSet_get_queryset_def g h)
  show "CommentViewSet_create env st u title_id review_id ct =
        (case CommentSerializer_is_valid env False ct of
           Inl e \<Rightarrow> Inl ValidationError
         | Inr vt \<Rightarrow> Inl Http404)"
    using CommentSerializer_is_valid_error [of env False ct]
    by (auto simp: CommentViewSet_create_def CommentViewSet_perform_create_def g h
             split: sum.splits)
qed (simp_all add: status_of_error_def)

theorem nested_lookup_not_found_witness:
  "ReviewViewSet_list two_titles_state 999 = Inl Http404 \<and>
   ReviewViewSet_create sample_env two_titles_state bob 999
     \<lparr>rd_text = Some ''fine'', rd_score = Some 8\<rparr> = Inl Http404 \<and>
   ReviewViewSet_get_object two_titles_state 2 1 = Inl Http404 \<and>
   CommentViewSet_list two_titles_state 2 1 = Inl Http404"
proof -
  have a: "filter (\<lambda>t. title_pk t = 999) (titles two_titles_state) = []"
    by (simp add: two_titles_state_def solaris_def stalker_def)
  have b: "filter (\<lambda>t. title_pk t = 2) (titles two_titles_state) = [stalker]"
    by (simp add: two_titles_state_def solaris_def stalker_def)
  have c: "filter (\<lambda>r. review_pk r = 1 \<and> review_title r = 2) (reviews two_titles_state) = []"
    by (simp add: two_titles_state_def alice_review_def)
  note A = mp [OF conjunct1 [OF nested_lookup_not_found] a]
  note B = mp [OF mp [OF conjunct1 [OF conjunct2 [OF nested_lookup_not_found]] b] c]
  have 1: "ReviewViewSet_list two_titles_state 999 = Inl Http404"
    using A by (rule conjunct1)
  have "ReviewViewSet_create sample_env two_titles_state bob 999
          \<lparr>rd_text = Some ''fine'', rd_score = Some 8\<rparr> =
        (case ReviewSerializer_is_valid sample_env two_titles_state ''POST'' bob 999 False
                \<lparr>rd_text = Some ''fine'', rd_score = Some 8\<rparr> of
           Inl e \<Rightarrow> Inl ValidationError
         | Inr vd \<Rightarrow> Inl Http404)"
    using A by blast
  then have 2: "ReviewViewSet_create sample_env two_titles_state bob 999
          \<lparr>rd_text = Some ''fine'', rd_score = Some 8\<rparr> = Inl Http404"
    unfolding bob_review_valid by simp
  have 3: "ReviewViewSet_get_object two_titles_state 2 1 = Inl Http404"
    using B by (rule conjunct1)
  have 4: "CommentViewSet_list two_titles_state 2 1 = Inl Http404"
    using B by blast
  show ?thesis using 1 2 3 4 by simp
qed

text \<open>
  The claim C7 as the specification states it, with the not-found response for every
  request on a missing title, fails for a create request whose payload is refused: the
  payload is validated before the title is looked up.
\<close>

theorem nested_create_invalid_payload:
  "filter (\<lambda>t. title_pk t = 999) (titles alice_state) = [] \<and>
   ReviewViewSet_create sample_env alice_state alice 999
     \<lparr>rd_text = Some ''fine'', rd_score = Some 11\<rparr> = Inl ValidationError \<and>
   status_of_error ValidationError = 400"
  by (simp add: ReviewViewSet_create_def ReviewSerializer_is_valid_def run_validation_def
        score_field_def validate_score_def alice_state_def solaris_def status_of_error_def Let_def)

subsection \<open>The rating of a title\<close>




end
